theory Spec2Isabelle
  imports Main "HOL-Library.Word"
begin

section \<open>The TSO service header (TSOService.h): data model\<close>

text \<open>
  The control information the controller core sends to every worker core. All ticks are
  nanoseconds. The field widths are the header's: \<open>uint8_t\<close>, \<open>uint16_t\<close> and
  \<open>uint64_t\<close>; in particular \<open>TBEAdjustment\<close> is declared \<open>uint64_t\<close>.
\<close>

record TSOWorkerControlInfo =
  IsReadyToIssueTS :: bool
  TBENanoSecStep :: "8 word"
  TBEAdjustment :: "64 word"
  TsDelta :: "16 word"
  ReservedTimeShreshold :: "64 word"
  BatchTTL :: "16 word"

text \<open>The default constructor \<open>TSOWorkerControlInfo()\<close> with its member initialiser list.\<close>

definition TSOWorkerControlInfo_new :: TSOWorkerControlInfo where
  "TSOWorkerControlInfo_new =
     \<lparr>IsReadyToIssueTS = False, TBENanoSecStep = 0, TBEAdjustment = 0, TsDelta = 0,
      ReservedTimeShreshold = 0, BatchTTL = 0\<rparr>"

text \<open>The exception classes of the header, as error values.\<close>

datatype TSOException =
  TSONotEnoughCoreException "16 word"
  | TSONotReadyException
  | TSOShutdownException

text \<open>
  A \<open>seastar::future\<close> as far as the header builds one: every future made in the header
  comes from \<open>make_ready_future\<close>; the other constructor is a future that holds an exception.
\<close>

datatype 'a future = make_ready_future 'a | make_exception_future TSOException

text \<open>
  The controller (core 0). The fields are the data members of \<open>TSOController\<close>; the four
  \<open>ConfigDuration\<close> members hold their \<open>count()\<close> in nanoseconds (the bits of the signed
  64-bit representation of the duration). The timers and the futures that track them are
  scheduling state and are left out.
\<close>

record TSOController =
  isMasterInstance :: bool
  masterInstanceURL :: string
  workersURLs :: "string list list"
  diffTALocalInNanosec :: "64 word"
  prevReservedTimeShreshold :: "64 word"
  myLease :: "64 word"
  stopRequested :: bool
  lastSentControlInfo :: TSOWorkerControlInfo
  controlInfoToSend :: TSOWorkerControlInfo
  heartBeatTimerInterval :: "64 word"
  timeSyncTimerInterval :: "64 word"
  defaultTBWindowSize :: "64 word"
  statsUpdateTimerInterval :: "64 word"

text \<open>
  A freshly constructed controller: the default member initialisers of the header
  (\<open>_isMasterInstance{false}\<close>, \<open>_diffTALocalInNanosec{0}\<close>,
  \<open>_prevReservedTimeShreshold{ULLONG_MAX}\<close>, \<open>_stopRequested{false}\<close>, the two
  default-constructed control infos and the configured durations with their defaults
  10ms, 10ms, 8ms and 1s). \<open>_myLease\<close> has no initialiser, so its first value is a parameter.
\<close>

definition TSOController_new :: "64 word \<Rightarrow> TSOController" where
  "TSOController_new lease0 =
     \<lparr>isMasterInstance = False, masterInstanceURL = [], workersURLs = [],
      diffTALocalInNanosec = 0, prevReservedTimeShreshold = - 1, myLease = lease0,
      stopRequested = False, lastSentControlInfo = TSOWorkerControlInfo_new,
      controlInfoToSend = TSOWorkerControlInfo_new,
      heartBeatTimerInterval = 10 * 1000 * 1000, timeSyncTimerInterval = 10 * 1000 * 1000,
      defaultTBWindowSize = 8 * 1000 * 1000, statsUpdateTimerInterval = 1000 * 1000 * 1000\<rparr>"

text \<open>
  \<open>TimeAuthorityNow()\<close>: \<open>now_nsec_count() + _diffTALocalInNanosec\<close>. The reading of the
  local steady clock is the parameter \<open>now\<close>; the sum is a \<open>uint64_t\<close> and wraps.
\<close>

definition TimeAuthorityNow :: "TSOController \<Rightarrow> 64 word \<Rightarrow> 64 word" where
  "TimeAuthorityNow c now = now + diffTALocalInNanosec c"

text \<open>
  \<open>GenNewLeaseVal()\<close>:
  \<open>TimeAuthorityNow() + _heartBeatTimerInterval().count() * 3 + 1*1000*1000\<close>. The product
  is a signed 64-bit product, converted to \<open>uint64_t\<close> for the sum: the same bits as the
  product of the words, as long as the signed product does not overflow.
\<close>

definition GenNewLeaseVal :: "TSOController \<Rightarrow> 64 word \<Rightarrow> 64 word" where
  "GenNewLeaseVal c now = TimeAuthorityNow c now + heartBeatTimerInterval c * 3 + 1 * 1000 * 1000"

text \<open>\<open>RenewLeaseOnly()\<close>: a ready future of a new lease value.\<close>

definition RenewLeaseOnly :: "TSOController \<Rightarrow> 64 word \<Rightarrow> (64 word) future" where
  "RenewLeaseOnly c now = make_ready_future (GenNewLeaseVal c now)"

text \<open>
  \<open>RenewLeaseAndExtendReservedTimeThreshold()\<close>: one call of \<open>GenNewLeaseVal()\<close>, whose
  value fills both components of the tuple in the ready future.
\<close>

definition RenewLeaseAndExtendReservedTimeThreshold ::
  "TSOController \<Rightarrow> 64 word \<Rightarrow> (64 word \<times> 64 word) future" where
  "RenewLeaseAndExtendReservedTimeThreshold c now =
     (let extendedLeaseAndThreshold = GenNewLeaseVal c now
      in make_ready_future (extendedLeaseAndThreshold, extendedLeaseAndThreshold))"

text \<open>
  \<open>JoinServerCluster()\<close>: the result tuple is built first; then \<open>_myLease\<close> and
  \<open>_masterInstanceURL\<close> are assigned. The URL of the instance's own TCP server endpoint
  (\<open>k2::RPC().getServerEndpoint(k2::TCPRPCProtocol::proto)->getURL()\<close>) comes from the
  transport and is the parameter \<open>myURL\<close>. The function returns the future and the
  controller as it leaves it.
\<close>

definition JoinServerCluster ::
  "TSOController \<Rightarrow> 64 word \<Rightarrow> string \<Rightarrow> (bool \<times> 64 word) future \<times> TSOController" where
  "JoinServerCluster c now myURL =
     (let result = (True, 0)
      in (make_ready_future result,
          c\<lparr>myLease := GenNewLeaseVal c now, masterInstanceURL := myURL\<rparr>))"

text \<open>
  The worker (every other core). The fields are the data members of \<open>TSOWorker\<close>.
\<close>

record TSOWorker =
  tsoId :: "32 word"
  curControlInfo :: TSOWorkerControlInfo
  lastRequestTBEMicroSecRounded :: "64 word"
  lastRequestTimeStampCount :: "16 word"

text \<open>
  A freshly constructed worker: \<open>_curControlInfo\<close> is default-constructed,
  \<open>_lastRequestTBEMicroSecRounded{0}\<close> and \<open>_lastRequestTimeStampCount{0}\<close>. \<open>_tsoId\<close> has no
  initialiser and is a parameter.
\<close>

definition TSOWorker_new :: "32 word \<Rightarrow> TSOWorker" where
  "TSOWorker_new tid =
     \<lparr>tsoId = tid, curControlInfo = TSOWorkerControlInfo_new,
      lastRequestTBEMicroSecRounded = 0, lastRequestTimeStampCount = 0\<rparr>"

section \<open>The worker's hot path (spec 4.1)\<close>

text \<open>
  The header declares \<open>UpdateWorkerControlInfo\<close>, \<open>GetTimestampFromTSO\<close> and
  \<open>GetTimeStampFromTSOLessFrequentHelper\<close>; their bodies (TSOWorker.cpp) and the batch type
  (k2/dto/TimestampBatch.h) are not among the sources. The definitions of this section
  follow the specification's section 3 (data model) and section 4.1 (worker), over the
  header's field types.
\<close>

text \<open>
  Modelled from the spec: the type \<open>Timestamp\<close> of k2/dto is missing; section 3 gives it as
  the 4-tuple (tEndTAI: u64 ns, uncertaintyDelta: u16 ns, tsoId: u32, stepSize: u8).
\<close>

record Timestamp =
  tEndTAI :: "64 word"
  tsUncertaintyDelta :: "16 word"
  tsTsoId :: "32 word"
  tsStepSize :: "8 word"

text \<open>
  Modelled from the spec: the type \<open>TimestampBatch\<close> of k2/dto is missing; section 3 gives
  it as (tbeBase: u64 ns, uncertaintyDelta, tsoId, stepSize, startCount: u16,
  batchSize: u16, ttl: u16 ns).
\<close>

record TimestampBatch =
  tbeBase :: "64 word"
  uncertaintyDelta :: "16 word"
  batchTsoId :: "32 word"
  stepSize :: "8 word"
  startCount :: "16 word"
  batchSize :: "16 word"
  ttl :: "16 word"

text \<open>
  Modelled from the spec: decoding a batch is missing from the sources; section 3: a batch
  decodes to \<open>batchSize\<close> timestamps whose
  \<open>tEndTAI = tbeBase + (startCount + i) * stepSize\<close>, for \<open>i\<close> from 0.
\<close>

definition decode :: "TimestampBatch \<Rightarrow> Timestamp list" where
  "decode b =
     map (\<lambda>i. \<lparr>tEndTAI = tbeBase b + (ucast (startCount b) + of_nat i) * ucast (stepSize b),
               tsUncertaintyDelta = uncertaintyDelta b, tsTsoId = batchTsoId b,
               tsStepSize = stepSize b\<rparr>)
         [0..<unat (batchSize b)]"

text \<open>
  How a request can end without a batch: an exception of the header, or the integer
  division by a zero \<open>TBENanoSecStep\<close> in \<open>1000 / tbeNanoSecStep\<close>, which the algorithm of
  section 4.1 does not guard and which does not return in C++.
\<close>

datatype TSOFailure = Thrown TSOException | DivisionByZero

text \<open>
  Modelled from the spec: the body of \<open>TSOWorker::UpdateWorkerControlInfo\<close> is missing;
  section 4.1, applyControlInfo: it replaces the worker's control info.
\<close>

definition UpdateWorkerControlInfo :: "TSOWorker \<Rightarrow> TSOWorkerControlInfo \<Rightarrow> TSOWorker" where
  "UpdateWorkerControlInfo w controlInfo = w\<lparr>curControlInfo := controlInfo\<rparr>"

text \<open>
  Modelled from the spec: the number of timestamps a worker has per microsecond,
  \<open>1000 / tbeNanoSecStep\<close> (section 4.1, steps 5 and 7; the header's note on
  \<open>_lastRequestTimeStampCount\<close> has the same quotient). It is computed where the step is
  not 0.
\<close>

definition slotsPerMicroSec :: "TSOWorkerControlInfo \<Rightarrow> 16 word" where
  "slotsPerMicroSec ci = 1000 div ucast (TBENanoSecStep ci)"

text \<open>
  Modelled from the spec: section 4.1, step 3, the body being missing. The candidate batch
  end is TAI-now rounded down to the microsecond plus the worker's fixed residue
  \<open>offs\<close> modulo 1000 (\<open>tbeNanoSecStep_offset\<close>, chosen at start).
\<close>

definition tbeCandidate :: "64 word \<Rightarrow> TSOWorker \<Rightarrow> 64 word \<Rightarrow> 64 word" where
  "tbeCandidate offs w nowLocal =
     (let nowTAI = nowLocal + TBEAdjustment (curControlInfo w)
      in nowTAI div 1000 * 1000 + offs)"

text \<open>
  Modelled from the spec: section 4.1, steps 4 to 6 with the first tie-break, the body being
  missing. A candidate behind the last served microsecond is treated as equal to it. In
  the last served microsecond the batch starts after the timestamps already handed out;
  when none is left there, step 5 moves to the next microsecond and sets the worker's
  \<open>lastRequestTimeStampCount\<close> to 0, so that the batch starts at 0. The result is the
  microsecond the batch is taken from, the start count and the worker as step 5 leaves
  it.
\<close>

definition batchStart ::
  "64 word \<Rightarrow> TSOWorker \<Rightarrow> 64 word \<Rightarrow> 64 word \<times> 16 word \<times> TSOWorker" where
  "batchStart offs w nowLocal =
     (let candidate = tbeCandidate offs w nowLocal;
          nowMicroRounded =
            (if candidate < lastRequestTBEMicroSecRounded w
             then lastRequestTBEMicroSecRounded w else candidate)
      in if nowMicroRounded = lastRequestTBEMicroSecRounded w
         then (let available = slotsPerMicroSec (curControlInfo w) - lastRequestTimeStampCount w
               in if available = 0
                  then (nowMicroRounded + 1000, 0, w\<lparr>lastRequestTimeStampCount := 0\<rparr>)
                  else (nowMicroRounded, lastRequestTimeStampCount w, w))
         else (nowMicroRounded, 0, w))"

text \<open>Modelled from the spec: section 4.1, step 7, the body being missing.\<close>

definition batchSizeToIssue :: "TSOWorkerControlInfo \<Rightarrow> 16 word \<Rightarrow> 16 word \<Rightarrow> 16 word" where
  "batchSizeToIssue ci startCnt batchSizeRequested =
     min batchSizeRequested (slotsPerMicroSec ci - startCnt)"

text \<open>
  Modelled from the spec: section 4.1, step 8, the body being missing:
  \<open>nowMicroRounded + (startCount + batchSize - 1) * tbeNanoSecStep\<close>, a 64-bit sum.
\<close>

definition tbeEndOfBatch :: "TSOWorkerControlInfo \<Rightarrow> 64 word \<Rightarrow> 16 word \<Rightarrow> 16 word \<Rightarrow> 64 word" where
  "tbeEndOfBatch ci nowMicroRounded startCnt batchSz =
     nowMicroRounded + (ucast startCnt + ucast batchSz - 1) * ucast (TBENanoSecStep ci)"

text \<open>
  Modelled from the spec: the body of \<open>TSOWorker::GetTimestampFromTSO\<close> is missing;
  section 4.1, steps 1 to 11. The reading of the local clock is the parameter
  \<open>nowLocal\<close>. Every request returns the worker as it leaves it: unchanged when it fails
  at step 1 or divides by a zero step, as step 5 wrote it when it fails at step 9, and
  with step 10 applied when it returns a batch.
\<close>

definition GetTimestampFromTSO ::
  "64 word \<Rightarrow> TSOWorker \<Rightarrow> 64 word \<Rightarrow> 16 word \<Rightarrow>
   TSOFailure \<times> TSOWorker + TimestampBatch \<times> TSOWorker" where
  "GetTimestampFromTSO offs w nowLocal batchSizeRequested =
     (let ci = curControlInfo w
      in if \<not> IsReadyToIssueTS ci then Inl (Thrown TSONotReadyException, w)
         else if TBENanoSecStep ci = 0 then Inl (DivisionByZero, w)
         else
           (let (nowMicroRounded, startCnt, w1) = batchStart offs w nowLocal;
                batchSz = batchSizeToIssue ci startCnt batchSizeRequested
            in if ReservedTimeShreshold ci < tbeEndOfBatch ci nowMicroRounded startCnt batchSz
               then Inl (Thrown TSONotReadyException, w1)
               else Inr (\<lparr>tbeBase = nowMicroRounded, uncertaintyDelta = TsDelta ci,
                           batchTsoId = tsoId w, stepSize = TBENanoSecStep ci,
                           startCount = startCnt, batchSize = batchSz, ttl = BatchTTL ci\<rparr>,
                         w1\<lparr>lastRequestTBEMicroSecRounded := nowMicroRounded,
                            lastRequestTimeStampCount := startCnt + batchSz\<rparr>)))"

text \<open>
  What reaches a worker: control-info updates from the controller and client requests,
  each request with the local clock reading at which it is served and the batch size
  requested. A worker processes them one at a time (section 5).
\<close>

datatype WorkerEvent =
  ApplyControlInfo TSOWorkerControlInfo
  | GetTimestampBatch "64 word" "16 word"

text \<open>The worker after an event.\<close>

fun worker_step :: "64 word \<Rightarrow> TSOWorker \<Rightarrow> WorkerEvent \<Rightarrow> TSOWorker" where
  "worker_step offs w (ApplyControlInfo ci) = UpdateWorkerControlInfo w ci"
| "worker_step offs w (GetTimestampBatch nowLocal req) =
     (case GetTimestampFromTSO offs w nowLocal req of
        Inl (e, w') \<Rightarrow> w'
      | Inr (b, w') \<Rightarrow> w')"

text \<open>
  The answers to the requests of a run, in order: each with the control info in force,
  the batch size requested and the failure or the batch.
\<close>

fun worker_run ::
  "64 word \<Rightarrow> TSOWorker \<Rightarrow> WorkerEvent list \<Rightarrow>
   (TSOWorkerControlInfo \<times> 16 word \<times> (TSOFailure + TimestampBatch)) list" where
  "worker_run offs w [] = []"
| "worker_run offs w (ApplyControlInfo ci # evs) =
     worker_run offs (UpdateWorkerControlInfo w ci) evs"
| "worker_run offs w (GetTimestampBatch nowLocal req # evs) =
     (case GetTimestampFromTSO offs w nowLocal req of
        Inl (e, w') \<Rightarrow> (curControlInfo w, req, Inl e) # worker_run offs w' evs
      | Inr (b, w') \<Rightarrow> (curControlInfo w, req, Inr b) # worker_run offs w' evs)"

text \<open>The timestamps a run hands out, in the order the worker returns them.\<close>

fun issuedBy :: "TSOWorkerControlInfo \<times> 16 word \<times> (TSOFailure + TimestampBatch) \<Rightarrow> Timestamp list" where
  "issuedBy (ci, req, Inl e) = []"
| "issuedBy (ci, req, Inr b) = decode b"

definition issued :: "64 word \<Rightarrow> TSOWorker \<Rightarrow> WorkerEvent list \<Rightarrow> Timestamp list" where
  "issued offs w evs = concat (map issuedBy (worker_run offs w evs))"

text \<open>
  The step of a deployment: \<open>tbeNanoSecStep\<close> equals the number of workers (section 3), so
  every control info that lets a worker issue carries the same step \<open>n\<close>.
\<close>

fun stepIs :: "8 word \<Rightarrow> WorkerEvent \<Rightarrow> bool" where
  "stepIs n (ApplyControlInfo ci) = (IsReadyToIssueTS ci \<longrightarrow> TBENanoSecStep ci = n)"
| "stepIs n (GetTimestampBatch nowLocal req) = True"

text \<open>
  Times within the 64 bits: the TAI reading of a request and the last microsecond the
  worker served are more than three microseconds away from \<open>2 ^ 64\<close> nanoseconds.
\<close>

definition timesInRange :: "TSOWorker \<Rightarrow> 64 word \<Rightarrow> bool" where
  "timesInRange w nowLocal =
     (unat (nowLocal + TBEAdjustment (curControlInfo w)) + 3000 < 2 ^ 64
      \<and> unat (lastRequestTBEMicroSecRounded w) + 3000 < 2 ^ 64)"

fun noOverflow :: "64 word \<Rightarrow> TSOWorker \<Rightarrow> WorkerEvent list \<Rightarrow> bool" where
  "noOverflow offs w [] = True"
| "noOverflow offs w (ApplyControlInfo ci # evs) =
     noOverflow offs (UpdateWorkerControlInfo w ci) evs"
| "noOverflow offs w (GetTimestampBatch nowLocal req # evs) =
     (timesInRange w nowLocal
      \<and> noOverflow offs (worker_step offs w (GetTimestampBatch nowLocal req)) evs)"

text \<open>
  What holds of a worker between events, for the step \<open>n\<close> of the deployment: the count of
  the last microsecond fits into its \<open>1000 / n\<close> slots, and a control info that lets the
  worker issue has the step \<open>n\<close>.
\<close>

definition countInv :: "8 word \<Rightarrow> TSOWorker \<Rightarrow> bool" where
  "countInv n w =
     (unat (lastRequestTimeStampCount w) * unat n \<le> 1000
      \<and> (IsReadyToIssueTS (curControlInfo w) \<longrightarrow> TBENanoSecStep (curControlInfo w) = n))"

text \<open>An event that is a client request: what a worker sees before any control info.\<close>

fun isRequest :: "WorkerEvent \<Rightarrow> bool" where
  "isRequest (GetTimestampBatch nowLocal req) = True"
| "isRequest (ApplyControlInfo ci) = False"

text \<open>
  A run to evaluate: four slots per microsecond (step 250), residue 1, a reserved time
  threshold of 6100. The first request comes before any control info. The fourth finds
  the four slots of 5001 used, moves to 6001 and would end beyond the threshold.
\<close>

definition exampleControlInfo :: TSOWorkerControlInfo where
  "exampleControlInfo =
     \<lparr>IsReadyToIssueTS = True, TBENanoSecStep = 250, TBEAdjustment = 0, TsDelta = 100,
      ReservedTimeShreshold = 6100, BatchTTL = 50\<rparr>"

definition exampleRun :: "WorkerEvent list" where
  "exampleRun =
     [GetTimestampBatch 4000 1, ApplyControlInfo exampleControlInfo, GetTimestampBatch 5000 3,
      GetTimestampBatch 5100 3, GetTimestampBatch 5200 2, GetTimestampBatch 5300 1]"

text \<open>The second batch of the run, and the worker once the four slots of 5001 are used.\<close>

definition exampleSecondBatch :: TimestampBatch where
  "exampleSecondBatch =
     \<lparr>tbeBase = 5001, uncertaintyDelta = 100, batchTsoId = 7, stepSize = 250,
      startCount = 3, batchSize = 1, ttl = 50\<rparr>"

definition exampleFullWorker :: TSOWorker where
  "exampleFullWorker =
     \<lparr>tsoId = 7, curControlInfo = exampleControlInfo,
      lastRequestTBEMicroSecRounded = 5001, lastRequestTimeStampCount = 4\<rparr>"

section \<open>The controller's role change, heartbeat and time sync (spec 4.2)\<close>

text \<open>
  The header declares \<open>SetRoleInternal\<close>, \<open>DoHeartBeat\<close>, \<open>DoTimeSync\<close>,
  \<open>SendWorkersControlInfo\<close> and \<open>Suicide\<close>; their bodies (TSOController.cpp) are not among
  the sources. The definitions of this section follow the specification's section 4.2,
  over the controller record of the header. \<open>now\<close> is the reading of the local steady
  clock when the operation runs.
\<close>

text \<open>
  What an operation of the controller leaves behind: the controller, with the control
  info it sent to the workers if it sent one, or the end of the process with the last
  control info sent.
\<close>

datatype ControllerStep =
  Running "TSOWorkerControlInfo option" TSOController
  | Exited TSOWorkerControlInfo

text \<open>
  Modelled from the spec: the body of \<open>SendWorkersControlInfo\<close> is missing; section 4.2,
  broadcastWCI: the pending control info is sent with
  \<open>isReadyToIssueTs = isMaster && (TAI-now > previous reserved time threshold) && !stopRequested\<close>.
  It returns the control info sent and the controller, which remembers it as last sent.
\<close>

definition SendWorkersControlInfo ::
  "TSOController \<Rightarrow> 64 word \<Rightarrow> TSOWorkerControlInfo \<times> TSOController" where
  "SendWorkersControlInfo c now =
     (let ci = (controlInfoToSend c)\<lparr>IsReadyToIssueTS :=
                  isMasterInstance c \<and> prevReservedTimeShreshold c < TimeAuthorityNow c now
                  \<and> \<not> stopRequested c\<rparr>
      in (ci, c\<lparr>controlInfoToSend := ci, lastSentControlInfo := ci\<rparr>))"

text \<open>
  Modelled from the spec: the body of \<open>SetRoleInternal\<close> is missing; section 4.2, setRole.
  Becoming master sets the pending reserved time threshold to the previous master's
  exactly and keeps that value to wait out; while TAI-now is not beyond it nothing is
  sent (the broadcast is deferred), otherwise the control info is sent at once. Becoming
  standby sends a not-ready control info at once.
\<close>

definition SetRoleInternal ::
  "TSOController \<Rightarrow> 64 word \<Rightarrow> bool \<Rightarrow> 64 word \<Rightarrow> ControllerStep" where
  "SetRoleInternal c now isMaster prevReservedTimeShresholdArg =
     (if isMaster then
        (let c1 = c\<lparr>isMasterInstance := True,
                     prevReservedTimeShreshold := prevReservedTimeShresholdArg,
                     controlInfoToSend :=
                       (controlInfoToSend c)\<lparr>ReservedTimeShreshold := prevReservedTimeShresholdArg\<rparr>\<rparr>
         in if TimeAuthorityNow c1 now \<le> prevReservedTimeShresholdArg
            then Running None c1
            else (let (ci, c2) = SendWorkersControlInfo c1 now in Running (Some ci) c2))
      else
        (let c1 = c\<lparr>isMasterInstance := False\<rparr>;
             (ci, c2) = SendWorkersControlInfo c1 now
         in Running (Some ci) c2))"

text \<open>
  Modelled from the spec: the body of \<open>Suicide\<close> is missing; section 4.2: every worker is
  set not ready and the process ends.
\<close>

definition Suicide :: "TSOController \<Rightarrow> ControllerStep" where
  "Suicide c = Exited ((controlInfoToSend c)\<lparr>IsReadyToIssueTS := False\<rparr>)"

text \<open>
  Modelled from the spec: the body of \<open>DoHeartBeat\<close> is missing; section 4.2, duty 2. A
  master renews lease and threshold (the header's
  \<open>RenewLeaseAndExtendReservedTimeThreshold\<close>), overwrites the pending threshold only with
  a larger one and sends the control info; a failed renewal ends in \<open>Suicide\<close>. A standby
  sends nothing; its promotion, which depends on what the consensus service reports, is
  the role change \<open>SetRoleInternal\<close>.
\<close>

definition DoHeartBeat :: "TSOController \<Rightarrow> 64 word \<Rightarrow> ControllerStep" where
  "DoHeartBeat c now =
     (if isMasterInstance c then
        (case RenewLeaseAndExtendReservedTimeThreshold c now of
           make_ready_future (newLease, newThreshold) \<Rightarrow>
             (let c1 = c\<lparr>myLease := newLease\<rparr>;
                  c2 = (if ReservedTimeShreshold (controlInfoToSend c1) < newThreshold
                        then c1\<lparr>controlInfoToSend :=
                                  (controlInfoToSend c1)\<lparr>ReservedTimeShreshold := newThreshold\<rparr>\<rparr>
                        else c1);
                  (ci, c3) = SendWorkersControlInfo c2 now
              in Running (Some ci) c3)
         | make_exception_future e \<Rightarrow> Suicide c)
      else Running None c)"

text \<open>
  Modelled from the spec: the body of \<open>DoTimeSync\<close> is missing; section 4.2, duty 3. The
  answer of the clock source (\<open>CheckAtomicGPSClock\<close>: the difference of TAI to the local
  clock and the uncertainty window) is the parameter. The difference is stored and becomes
  the pending adjustment, the pending uncertainty is the larger of the answer and the
  default window, narrowed to the 16 bits of \<open>TsDelta\<close>; nothing is sent.
\<close>

definition DoTimeSync :: "TSOController \<Rightarrow> 64 word \<times> 64 word \<Rightarrow> ControllerStep" where
  "DoTimeSync c answer =
     (let (taiDelta, uncertainty) = answer
      in Running None
           (c\<lparr>diffTALocalInNanosec := taiDelta,
              controlInfoToSend :=
                (controlInfoToSend c)\<lparr>TBEAdjustment := taiDelta,
                                       TsDelta := ucast (max uncertainty (defaultTBWindowSize c))\<rparr>\<rparr>))"

text \<open>
  What happens on the controller: a role change with the previous reserved time
  threshold, a heartbeat tick, a time-sync tick with the clock source's answer, and the
  deferred broadcast that a role change scheduled.
\<close>

datatype ControllerEvent =
  SetRole bool "64 word"
  | HeartBeatTick
  | TimeSyncTick "64 word" "64 word"
  | DeferredBroadcast

fun controller_step :: "TSOController \<Rightarrow> 64 word \<Rightarrow> ControllerEvent \<Rightarrow> ControllerStep" where
  "controller_step c now (SetRole isMaster prev) = SetRoleInternal c now isMaster prev"
| "controller_step c now HeartBeatTick = DoHeartBeat c now"
| "controller_step c now (TimeSyncTick taiDelta uncertainty) = DoTimeSync c (taiDelta, uncertainty)"
| "controller_step c now DeferredBroadcast =
     (let (ci, c1) = SendWorkersControlInfo c now in Running (Some ci) c1)"

fun isSetRole :: "ControllerEvent \<Rightarrow> bool" where
  "isSetRole (SetRole isMaster prev) = True"
| "isSetRole ev = False"

text \<open>
  The control infos a controller sends over a list of events, each event with the clock
  reading at which it runs; nothing follows the end of the process.
\<close>

fun broadcasts :: "TSOController \<Rightarrow> (64 word \<times> ControllerEvent) list \<Rightarrow> TSOWorkerControlInfo list" where
  "broadcasts c [] = []"
| "broadcasts c ((now, ev) # evs) =
     (case controller_step c now ev of
        Running None c1 \<Rightarrow> broadcasts c1 evs
      | Running (Some ci) c1 \<Rightarrow> ci # broadcasts c1 evs
      | Exited ci \<Rightarrow> [ci])"

section \<open>Controller and worker together\<close>

text \<open>
  One process: the controller and one of its workers with residue \<open>offs\<close>, on one local
  steady clock. A control info the controller sends reaches the worker before the next
  event (section 5: a worker applies control infos between client requests, in the order
  sent). The answers to the client requests are collected as in \<open>worker_run\<close>.
\<close>

datatype SystemEvent =
  OnController ControllerEvent
  | ClientRequest "16 word"

fun system_run ::
  "64 word \<Rightarrow> TSOController \<Rightarrow> TSOWorker \<Rightarrow> (64 word \<times> SystemEvent) list \<Rightarrow>
   (TSOWorkerControlInfo \<times> 16 word \<times> (TSOFailure + TimestampBatch)) list" where
  "system_run offs c w [] = []"
| "system_run offs c w ((now, OnController ev) # evs) =
     (case controller_step c now ev of
        Running None c1 \<Rightarrow> system_run offs c1 w evs
      | Running (Some ci) c1 \<Rightarrow> system_run offs c1 (UpdateWorkerControlInfo w ci) evs
      | Exited ci \<Rightarrow> [])"
| "system_run offs c w ((now, ClientRequest req) # evs) =
     (case GetTimestampFromTSO offs w now req of
        Inl (e, w1) \<Rightarrow> (curControlInfo w, req, Inl e) # system_run offs c w1 evs
      | Inr (b, w1) \<Rightarrow> (curControlInfo w, req, Inr b) # system_run offs c w1 evs)"

text \<open>An event that is no role change: the events of one master epoch after its first.\<close>

fun noRoleChange :: "64 word \<times> SystemEvent \<Rightarrow> bool" where
  "noRoleChange (now, OnController ev) = (\<not> isSetRole ev)"
| "noRoleChange (now, ClientRequest req) = True"

text \<open>
  Every event of the run happens while the controller's TAI-now is not beyond \<open>R\<close>.
\<close>

fun taiNotBeyond :: "64 word \<Rightarrow> TSOController \<Rightarrow> (64 word \<times> SystemEvent) list \<Rightarrow> bool" where
  "taiNotBeyond R c [] = True"
| "taiNotBeyond R c ((now, OnController ev) # evs) =
     (TimeAuthorityNow c now \<le> R
      \<and> (case controller_step c now ev of
            Running b c1 \<Rightarrow> taiNotBeyond R c1 evs
          | Exited ci \<Rightarrow> True))"
| "taiNotBeyond R c ((now, ClientRequest req) # evs) =
     (TimeAuthorityNow c now \<le> R \<and> taiNotBeyond R c evs)"

text \<open>
  A handover to evaluate: a started instance with one worker (step 1) and the default 10 ms
  heartbeat becomes master at clock 5000 with the previous reserved time threshold 5500.
\<close>

definition exampleStandby :: TSOController where
  "exampleStandby =
     (TSOController_new 0)\<lparr>controlInfoToSend := TSOWorkerControlInfo_new\<lparr>TBENanoSecStep := 1\<rparr>\<rparr>"

definition exampleEpoch :: "(64 word \<times> ControllerEvent) list" where
  "exampleEpoch =
     [(5000, SetRole True 5500), (5600, HeartBeatTick), (5700, TimeSyncTick 1000000 0),
      (5800, HeartBeatTick), (5900, TimeSyncTick 0 0), (6000, HeartBeatTick)]"

definition exampleWaiting :: "(64 word \<times> SystemEvent) list" where
  "exampleWaiting = [(5100, ClientRequest 1), (5400, OnController HeartBeatTick),
                     (5450, ClientRequest 1)]"



section \<open>Properties of the controller's lease helpers\<close>

text \<open>
  C4. \<open>GenNewLeaseVal()\<close> is \<open>TimeAuthorityNow()\<close>, which is the local steady-clock reading
  plus the stored TA-local difference, plus three heartbeat intervals plus one
  millisecond (1000000 ns). All sums are \<open>uint64_t\<close> sums; where the mathematical sum
  fits into 64 bits the value is that sum exactly.
\<close>

theorem GenNewLeaseVal_is_now_plus_three_heartbeats_plus_1ms:
  "GenNewLeaseVal c now = TimeAuthorityNow c now + 3 * heartBeatTimerInterval c + 1000000
   \<and> TimeAuthorityNow c now = now + diffTALocalInNanosec c
   \<and> unat (GenNewLeaseVal c now) =
       (unat now + unat (diffTALocalInNanosec c) + 3 * unat (heartBeatTimerInterval c) + 1000000)
         mod 2 ^ 64
   \<and> (unat now + unat (diffTALocalInNanosec c) + 3 * unat (heartBeatTimerInterval c) + 1000000
         < 2 ^ 64 \<longrightarrow>
       unat (GenNewLeaseVal c now) =
         unat now + unat (diffTALocalInNanosec c) + 3 * unat (heartBeatTimerInterval c) + 1000000)"
proof -
  let ?s = "unat now + unat (diffTALocalInNanosec c) + 3 * unat (heartBeatTimerInterval c) + 1000000"
  have w: "GenNewLeaseVal c now = TimeAuthorityNow c now + 3 * heartBeatTimerInterval c + 1000000"
    by (simp add: GenNewLeaseVal_def mult.commute)
  have t: "TimeAuthorityNow c now = now + diffTALocalInNanosec c"
    by (simp add: TimeAuthorityNow_def)
  have "GenNewLeaseVal c now = (of_nat ?s :: 64 word)"
    by (simp add: w t)
  then have u: "unat (GenNewLeaseVal c now) = ?s mod 2 ^ 64"
    by (simp only: unat_of_nat) simp
  from w t u show ?thesis by simp
qed

theorem GenNewLeaseVal_default_interval_witness:
  "unat (GenNewLeaseVal (TSOController_new 0) 5000000000) = 5031000000"
  using GenNewLeaseVal_is_now_plus_three_heartbeats_plus_1ms
          [where c = "TSOController_new 0" and now = 5000000000]
  by (simp add: TSOController_new_def)

text \<open>
  C5. \<open>RenewLeaseAndExtendReservedTimeThreshold()\<close> always returns a ready future, never an
  exceptional one, and the tuple in it holds the value of \<open>GenNewLeaseVal()\<close> twice: the new
  lease and the new reserved time threshold are equal.
\<close>

theorem RenewLeaseAndExtendReservedTimeThreshold_ready_equal_pair:
  "RenewLeaseAndExtendReservedTimeThreshold c now =
     make_ready_future (GenNewLeaseVal c now, GenNewLeaseVal c now)
   \<and> (\<exists>newLease newThreshold.
        RenewLeaseAndExtendReservedTimeThreshold c now = make_ready_future (newLease, newThreshold)
        \<and> newLease = newThreshold \<and> newLease = GenNewLeaseVal c now)
   \<and> (\<forall>e. RenewLeaseAndExtendReservedTimeThreshold c now \<noteq> make_exception_future e)"
  by (simp add: RenewLeaseAndExtendReservedTimeThreshold_def Let_def)

text \<open>
  C9. \<open>JoinServerCluster()\<close> returns the ready pair (true, 0) whatever the controller and the
  clock are; it takes nothing from a consensus service. It leaves the controller with
  \<open>_myLease\<close> set to \<open>GenNewLeaseVal()\<close> and \<open>_masterInstanceURL\<close> set to the URL of the
  instance's own TCP endpoint, and changes nothing else.
\<close>

theorem JoinServerCluster_fake_new_master:
  "fst (JoinServerCluster c now myURL) = make_ready_future (True, 0)
   \<and> myLease (snd (JoinServerCluster c now myURL)) = GenNewLeaseVal c now
   \<and> masterInstanceURL (snd (JoinServerCluster c now myURL)) = myURL
   \<and> snd (JoinServerCluster c now myURL) =
       c\<lparr>myLease := GenNewLeaseVal c now, masterInstanceURL := myURL\<rparr>"
  by (simp add: JoinServerCluster_def)

section \<open>The type of the time adjustment\<close>

text \<open>
  C8, as stated, fails: the adjustment is not a signed quantity. With the delta -3 stored
  in \<open>_diffTALocalInNanosec\<close> and the clock at 1, \<open>TimeAuthorityNow()\<close> is not the signed
  sum -2 but 18446744073709551614, and a \<open>TBEAdjustment\<close> that was assigned -3 reads as
  18446744073709551613.
\<close>

theorem adjustment_signed_counterexample:
  "uint (TimeAuthorityNow ((TSOController_new 0)\<lparr>diffTALocalInNanosec := word_of_int (- 3)\<rparr>) 1)
     \<noteq> 1 + (- 3)
   \<and> uint (TimeAuthorityNow ((TSOController_new 0)\<lparr>diffTALocalInNanosec := word_of_int (- 3)\<rparr>) 1)
     = 18446744073709551614
   \<and> uint (TBEAdjustment (TSOWorkerControlInfo_new\<lparr>TBEAdjustment := word_of_int (- 3)\<rparr>))
     = 18446744073709551613"
  by (simp add: TimeAuthorityNow_def TSOController_new_def)

text \<open>
  C8, amended. The adjustment (\<open>TBEAdjustment\<close>, and the controller's
  \<open>_diffTALocalInNanosec\<close>) is an unsigned 64-bit quantity, and \<open>TimeAuthorityNow()\<close> adds it
  to the clock reading modulo \<open>2 ^ 64\<close>. A negative delta \<open>d\<close> is held as its two's
  complement; the unsigned sum is then the exact value \<open>now + d\<close> whenever that value lies
  in the range of a \<open>uint64_t\<close>.
\<close>

theorem adjustment_unsigned_modular_sum:
  "uint (TimeAuthorityNow c now) = (uint now + uint (diffTALocalInNanosec c)) mod 2 ^ 64
   \<and> 0 \<le> uint (diffTALocalInNanosec c) \<and> uint (diffTALocalInNanosec c) < 2 ^ 64
   \<and> 0 \<le> uint (TBEAdjustment ci) \<and> uint (TBEAdjustment ci) < 2 ^ 64
   \<and> (0 \<le> uint now + d \<and> uint now + d < 2 ^ 64 \<longrightarrow>
        uint (TimeAuthorityNow (c\<lparr>diffTALocalInNanosec := word_of_int d\<rparr>) now) = uint now + d)"
proof -
  have a: "uint (TimeAuthorityNow c now) = (uint now + uint (diffTALocalInNanosec c)) mod 2 ^ 64"
    by (simp add: TimeAuthorityNow_def uint_word_ariths)
  have b: "uint (diffTALocalInNanosec c) < 2 ^ 64" "uint (TBEAdjustment ci) < 2 ^ 64"
    using uint_lt2p [of "diffTALocalInNanosec c"] uint_lt2p [of "TBEAdjustment ci"] by simp_all
  have c: "uint (TimeAuthorityNow (c\<lparr>diffTALocalInNanosec := word_of_int d\<rparr>) now) = uint now + d"
    if "0 \<le> uint now + d" "uint now + d < 2 ^ 64"
  proof -
    have "now + word_of_int d = (word_of_int (uint now + d) :: 64 word)"
      by simp
    then have "uint (now + word_of_int d :: 64 word) = (uint now + d) mod 2 ^ 64"
      by (simp only: uint_word_of_int) simp
    with that show ?thesis by (simp add: TimeAuthorityNow_def)
  qed
  from a b c show ?thesis by simp
qed

theorem adjustment_unsigned_modular_sum_witness:
  "uint (TimeAuthorityNow ((TSOController_new 0)\<lparr>diffTALocalInNanosec := word_of_int (- 3)\<rparr>) 10) = 7"
proof -
  have h: "0 \<le> uint (10 :: 64 word) + (- 3) \<and> uint (10 :: 64 word) + (- 3) < 2 ^ 64"
    by simp
  from adjustment_unsigned_modular_sum
         [where c = "TSOController_new 0" and now = 10 and d = "- 3"] h
  have "uint (TimeAuthorityNow ((TSOController_new 0)\<lparr>diffTALocalInNanosec := word_of_int (- 3)\<rparr>) 10)
          = uint (10 :: 64 word) + (- 3)"
    by blast
  then show ?thesis by simp
qed

section \<open>The worker's hot path: what one request computes\<close>

text \<open>
  The hot path computes on 8-, 16- and 64-bit words. The lemmas of this section read its
  results as natural numbers, under the conditions that keep the sums within the words.
\<close>

lemma unat_ucast_8_16: "unat (ucast (x :: 8 word) :: 16 word) = unat x"
proof -
  have "unat x < 2 ^ 8" using unsigned_less [of x] by simp
  then have "unat x < 2 ^ 16" by simp
  then show ?thesis by (simp add: unsigned_ucast_eq take_bit_nat_eq_self)
qed

lemma unat_step_le: "unat (x :: 8 word) \<le> 255"
  using unsigned_less [of x, where 'a = nat] by simp

lemma slots_unat: "unat (slotsPerMicroSec ci) = 1000 div unat (TBENanoSecStep ci)"
  by (simp add: slotsPerMicroSec_def unat_div unat_ucast_8_16)

lemma cand_unat:
  assumes "unat (nowLocal + TBEAdjustment (curControlInfo w)) + 3000 < 2 ^ 64" "unat offs < 1000"
  shows "unat (tbeCandidate offs w nowLocal) =
         unat (nowLocal + TBEAdjustment (curControlInfo w)) div 1000 * 1000 + unat offs"
proof -
  let ?t = "nowLocal + TBEAdjustment (curControlInfo w)"
  have d: "unat (?t div 1000) = unat ?t div 1000"
    by (simp add: unat_div)
  have le: "unat ?t div 1000 * 1000 \<le> unat ?t" by simp
  have m: "unat (?t div 1000 * 1000) = unat ?t div 1000 * 1000"
    using assms(1) le by (simp add: unat_word_ariths d)
  have "unat (?t div 1000 * 1000 + offs) = unat ?t div 1000 * 1000 + unat offs"
    using assms le by (simp add: unat_word_ariths m)
  then show ?thesis by (simp add: tbeCandidate_def Let_def)
qed

lemma add_small_unat:
  assumes "unat (m :: 64 word) + 2000 < 2 ^ 64" and "k \<le> 1000"
  shows "unat (m + of_nat k) = unat m + k"
proof -
  have k: "unat (of_nat k :: 64 word) = k"
    using assms(2) by (simp add: unat_of_nat)
  show ?thesis using assms by (simp add: unat_word_ariths k)
qed

lemma ts_word:
  "(ucast (sc :: 16 word) + of_nat i) * ucast (st :: 8 word)
     = (of_nat ((unat sc + i) * unat st) :: 64 word)"
  by simp

lemma ts_unat:
  assumes "unat (m :: 64 word) + 2000 < 2 ^ 64" and "(unat sc + i) * unat st \<le> 1000"
  shows "unat (m + (ucast (sc :: 16 word) + of_nat i) * ucast (st :: 8 word))
           = unat m + (unat sc + i) * unat st"
  unfolding ts_word using assms by (rule add_small_unat)

lemma tbeEnd_unat:
  assumes "unat (m :: 64 word) + 2000 < 2 ^ 64"
    and "(unat sc + unat bs) * unat (TBENanoSecStep ci) \<le> 1000" and "0 < unat bs"
  shows "unat (tbeEndOfBatch ci m sc bs)
           = unat m + (unat sc + unat bs - 1) * unat (TBENanoSecStep ci)"
proof -
  obtain j where j: "unat bs = Suc j" using assms(3) by (cases "unat bs") simp_all
  have "ucast bs = (of_nat (Suc j) :: 64 word)"
    using j of_nat_unat [of bs, where 'a = "64 word"] by simp
  then have "tbeEndOfBatch ci m sc bs = m + (ucast sc + of_nat j) * ucast (TBENanoSecStep ci)"
    by (simp add: tbeEndOfBatch_def)
  moreover have "(unat sc + j) * unat (TBENanoSecStep ci) \<le> 1000"
  proof -
    have "unat sc + j \<le> unat sc + unat bs" using j by simp
    then have "(unat sc + j) * unat (TBENanoSecStep ci) \<le> (unat sc + unat bs) * unat (TBENanoSecStep ci)"
      by (rule mult_le_mono1)
    then show ?thesis using assms(2) by (rule order_trans)
  qed
  ultimately show ?thesis using assms(1) j by (simp add: ts_unat)
qed

lemma unat_min: "unat (min a b) = min (unat a) (unat b)"
  by (simp add: min_def word_le_nat_alt)

lemma batchSize_unat:
  assumes "unat sc * unat (TBENanoSecStep ci) \<le> 1000" and "TBENanoSecStep ci \<noteq> 0"
  shows "unat (batchSizeToIssue ci sc req) = min (unat req) (1000 div unat (TBENanoSecStep ci) - unat sc)"
    and "(unat sc + unat (batchSizeToIssue ci sc req)) * unat (TBENanoSecStep ci) \<le> 1000"
    and "unat (sc + batchSizeToIssue ci sc req) = unat sc + unat (batchSizeToIssue ci sc req)"
proof -
  let ?n = "unat (TBENanoSecStep ci)"
  have p: "0 < ?n" using assms(2) by (simp add: unat_gt_0)
  have le: "unat sc \<le> 1000 div ?n"
    using assms(1) p by (simp add: less_eq_div_iff_mult_less_eq)
  then have "sc \<le> slotsPerMicroSec ci"
    by (simp add: word_le_nat_alt slots_unat)
  then have "unat (slotsPerMicroSec ci - sc) = 1000 div ?n - unat sc"
    by (simp add: unat_sub slots_unat)
  then show a: "unat (batchSizeToIssue ci sc req) = min (unat req) (1000 div ?n - unat sc)"
    by (simp add: batchSizeToIssue_def unat_min)
  have "unat sc + unat (batchSizeToIssue ci sc req) \<le> 1000 div ?n"
    using a le by simp
  then have "(unat sc + unat (batchSizeToIssue ci sc req)) * ?n \<le> 1000 div ?n * ?n"
    by (rule mult_le_mono1)
  then show b: "(unat sc + unat (batchSizeToIssue ci sc req)) * ?n \<le> 1000"
    by (rule order_trans) simp
  have "unat sc + unat (batchSizeToIssue ci sc req) \<le> 1000"
    using \<open>unat sc + unat (batchSizeToIssue ci sc req) \<le> 1000 div ?n\<close>
    by (rule order_trans) simp
  then show "unat (sc + batchSizeToIssue ci sc req) = unat sc + unat (batchSizeToIssue ci sc req)"
    by (simp add: unat_word_ariths)
qed

lemma decode_unat:
  assumes "unat (tbeBase b) + 2000 < 2 ^ 64"
    and "(unat (startCount b) + unat (batchSize b)) * unat (stepSize b) \<le> 1000"
  shows "map (\<lambda>t. unat (tEndTAI t)) (decode b) =
         map (\<lambda>i. unat (tbeBase b) + (unat (startCount b) + i) * unat (stepSize b))
             [0..<unat (batchSize b)]"
proof -
  have "unat (tbeBase b + (ucast (startCount b) + of_nat i) * ucast (stepSize b))
          = unat (tbeBase b) + (unat (startCount b) + i) * unat (stepSize b)"
    if "i < unat (batchSize b)" for i
  proof -
    have "unat (startCount b) + i \<le> unat (startCount b) + unat (batchSize b)"
      using that by simp
    then have "(unat (startCount b) + i) * unat (stepSize b)
                 \<le> (unat (startCount b) + unat (batchSize b)) * unat (stepSize b)"
      by (rule mult_le_mono1)
    then have "(unat (startCount b) + i) * unat (stepSize b) \<le> 1000"
      using assms(2) by (rule order_trans)
    with assms(1) show ?thesis by (rule ts_unat)
  qed
  then show ?thesis by (simp add: decode_def comp_def)
qed

lemma arith_progression:
  fixes B s n k :: nat
  assumes "0 < n"
  shows "sorted_wrt (<) (map (\<lambda>i. B + (s + i) * n) [0..<k])"
    and "\<forall>x \<in> set (map (\<lambda>i. B + (s + i) * n) [0..<k]). B + s * n \<le> x \<and> x < B + (s + k) * n
           \<and> x \<le> B + (s + k - 1) * n"
proof -
  show "sorted_wrt (<) (map (\<lambda>i. B + (s + i) * n) [0..<k])"
    using assms by (simp add: sorted_wrt_map sorted_wrt_iff_nth_less)
  show "\<forall>x \<in> set (map (\<lambda>i. B + (s + i) * n) [0..<k]). B + s * n \<le> x \<and> x < B + (s + k) * n
           \<and> x \<le> B + (s + k - 1) * n"
  proof
    fix x assume "x \<in> set (map (\<lambda>i. B + (s + i) * n) [0..<k])"
    then obtain i where i: "i < k" "x = B + (s + i) * n" by auto
    have "s + i \<le> s + k - 1" using i(1) by simp
    then have a: "(s + i) * n \<le> (s + k - 1) * n" by (rule mult_le_mono1)
    have "s + i < s + k" using i(1) by simp
    then have b: "(s + i) * n < (s + k) * n" using assms by simp
    have c: "s * n \<le> (s + i) * n" by (rule mult_le_mono1) simp
    show "B + s * n \<le> x \<and> x < B + (s + k) * n \<and> x \<le> B + (s + k - 1) * n"
      using a b c by (simp add: i(2))
  qed
qed

lemma countInv_Update:
  "countInv n w \<Longrightarrow> stepIs n (ApplyControlInfo ci) \<Longrightarrow> countInv n (UpdateWorkerControlInfo w ci)"
  by (simp add: countInv_def UpdateWorkerControlInfo_def)

lemma batchStart_alt:
  "batchStart offs w nowLocal =
     (if unat (tbeCandidate offs w nowLocal) \<le> unat (lastRequestTBEMicroSecRounded w)
      then (if slotsPerMicroSec (curControlInfo w) - lastRequestTimeStampCount w = 0
            then (lastRequestTBEMicroSecRounded w + 1000, 0, w\<lparr>lastRequestTimeStampCount := 0\<rparr>)
            else (lastRequestTBEMicroSecRounded w, lastRequestTimeStampCount w, w))
      else (tbeCandidate offs w nowLocal, 0, w))"
proof -
  let ?c = "tbeCandidate offs w nowLocal" and ?L = "lastRequestTBEMicroSecRounded w"
  have "(if ?c < ?L then ?L else ?c) = ?L \<longleftrightarrow> ?c \<le> ?L"
    by auto
  moreover have "?c \<le> ?L \<Longrightarrow> (if ?c < ?L then ?L else ?c) = ?L"
    by auto
  moreover have "\<not> ?c \<le> ?L \<Longrightarrow> (if ?c < ?L then ?L else ?c) = ?c"
    by auto
  ultimately show ?thesis
    unfolding batchStart_def Let_def word_le_nat_alt [symmetric]
    by (cases "?c \<le> ?L") simp_all
qed

text \<open>
  What steps 4 to 6 leave: a start count that is 0 or the count of the last microsecond,
  and a worker that differs from the one before at most in a count set to 0.
\<close>

lemma batchStart_written:
  assumes "batchStart offs w nowLocal = (m, sc, w1)"
  shows "sc = 0 \<or> sc = lastRequestTimeStampCount w"
    and "w1 = w \<or> w1 = w\<lparr>lastRequestTimeStampCount := 0\<rparr>"
  using assms by (auto simp: batchStart_alt split: if_splits)

lemma batchStart_in_range:
  assumes rng: "timesInRange w nowLocal" and offs: "unat offs < 1000"
    and bs: "batchStart offs w nowLocal = (m, sc, w1)"
  shows "unat m + 2000 < 2 ^ 64"
proof -
  let ?c = "tbeCandidate offs w nowLocal"
  let ?L = "lastRequestTBEMicroSecRounded w"
  let ?T = "unat (nowLocal + TBEAdjustment (curControlInfo w))"
  have r1: "?T + 3000 < 2 ^ 64" and r2: "unat ?L + 3000 < 2 ^ 64"
    using rng by (simp_all add: timesInRange_def)
  have cu: "unat ?c = ?T div 1000 * 1000 + unat offs"
    using r1 offs by (rule cand_unat)
  have cle: "unat ?c + 2000 < 2 ^ 64" using cu r1 offs by simp
  have L1000: "unat (?L + 1000) = unat ?L + 1000"
    using r2 by (simp add: unat_word_ariths)
  have "m = ?L + 1000 \<or> m = ?L \<or> m = ?c"
    using bs by (auto simp: batchStart_alt split: if_splits)
  then show ?thesis using cle r2 L1000 by auto
qed

lemma countInv_reset: "countInv n w \<Longrightarrow> countInv n (w\<lparr>lastRequestTimeStampCount := 0\<rparr>)"
  by (simp add: countInv_def)

text \<open>A request that returns no batch keeps the counters consistent.\<close>

lemma Get_failure:
  assumes ci: "countInv n w"
    and get: "GetTimestampFromTSO offs w nowLocal req = Inl (e, w')"
  shows "countInv n w'"
proof -
  obtain m sc w1 where bsm: "batchStart offs w nowLocal = (m, sc, w1)"
    by (cases "batchStart offs w nowLocal")
  have "w' = w \<or> w' = w1"
    using get bsm by (auto simp: GetTimestampFromTSO_def Let_def split: if_splits)
  moreover have "w1 = w \<or> w1 = w\<lparr>lastRequestTimeStampCount := 0\<rparr>"
    using bsm by (rule batchStart_written(2))
  ultimately show ?thesis using ci countInv_reset [OF ci] by auto
qed

text \<open>A request that returns a batch: the batch and the worker it leaves.\<close>

lemma Get_counts:
  assumes ci: "countInv n w"
    and get: "GetTimestampFromTSO offs w nowLocal req = Inr (b, w')"
  shows "countInv n w'"
    and "stepSize b = TBENanoSecStep (curControlInfo w)" and "stepSize b \<noteq> 0"
    and "batchSize b = min req (slotsPerMicroSec (curControlInfo w) - startCount b)"
    and "unat (batchSize b) = min (unat req) (1000 div unat (stepSize b) - unat (startCount b))"
    and "unat (startCount b) + unat (batchSize b) \<le> 1000 div unat (stepSize b)"
    and "(unat (startCount b) + unat (batchSize b)) * unat (stepSize b) \<le> 1000"
    and "\<exists>w1. batchStart offs w nowLocal = (tbeBase b, startCount b, w1)"
    and "\<not> ReservedTimeShreshold (curControlInfo w)
             < tbeEndOfBatch (curControlInfo w) (tbeBase b) (startCount b) (batchSize b)"
proof -
  let ?ci = "curControlInfo w"
  have rdy: "IsReadyToIssueTS ?ci" and nz0: "TBENanoSecStep ?ci \<noteq> 0"
    using get by (auto simp: GetTimestampFromTSO_def Let_def split: if_splits)
  have st: "TBENanoSecStep ?ci = n" using ci rdy by (simp add: countInv_def)
  obtain m sc w1 where bsm: "batchStart offs w nowLocal = (m, sc, w1)"
    by (cases "batchStart offs w nowLocal")
  define bs where "bs = batchSizeToIssue ?ci sc req"
  have thr: "\<not> ReservedTimeShreshold ?ci < tbeEndOfBatch ?ci m sc bs"
    and b: "b = \<lparr>tbeBase = m, uncertaintyDelta = TsDelta ?ci, batchTsoId = tsoId w,
                  stepSize = TBENanoSecStep ?ci, startCount = sc, batchSize = bs,
                  ttl = BatchTTL ?ci\<rparr>"
    and w': "w' = w1\<lparr>lastRequestTBEMicroSecRounded := m, lastRequestTimeStampCount := sc + bs\<rparr>"
    using get rdy nz0 bsm by (auto simp: GetTimestampFromTSO_def Let_def bs_def split: if_splits)
  have w1: "curControlInfo w1 = ?ci"
    using batchStart_written(2) [OF bsm] by auto
  have "sc = 0 \<or> sc = lastRequestTimeStampCount w"
    using bsm by (rule batchStart_written(1))
  then have scn: "unat sc * unat (TBENanoSecStep ?ci) \<le> 1000"
    using ci st by (auto simp: countInv_def)
  note g = batchSize_unat [OF scn nz0, of req, folded bs_def]
  have p: "0 < unat (TBENanoSecStep ?ci)" using nz0 by (simp add: unat_gt_0)
  show "countInv n w'"
    using ci g(2) g(3) st by (simp add: countInv_def w' w1)
  show "stepSize b = TBENanoSecStep (curControlInfo w)" by (simp add: b)
  show "stepSize b \<noteq> 0" using nz0 by (simp add: b)
  show "batchSize b = min req (slotsPerMicroSec (curControlInfo w) - startCount b)"
    by (simp add: b bs_def batchSizeToIssue_def)
  show "unat (batchSize b) = min (unat req) (1000 div unat (stepSize b) - unat (startCount b))"
    using g(1) by (simp add: b)
  show "unat (startCount b) + unat (batchSize b) \<le> 1000 div unat (stepSize b)"
    using g(2) p by (simp add: b less_eq_div_iff_mult_less_eq)
  show "(unat (startCount b) + unat (batchSize b)) * unat (stepSize b) \<le> 1000"
    using g(2) by (simp add: b)
  show "\<exists>w1. batchStart offs w nowLocal = (tbeBase b, startCount b, w1)"
    using bsm by (simp add: b)
  show "\<not> ReservedTimeShreshold (curControlInfo w)
             < tbeEndOfBatch (curControlInfo w) (tbeBase b) (startCount b) (batchSize b)"
    using thr by (simp add: b)
qed

lemma run_counts:
  "countInv n w \<Longrightarrow> list_all (stepIs n) evs \<Longrightarrow>
   \<forall>(ci, req, r) \<in> set (worker_run offs w evs). \<forall>b. r = Inr b \<longrightarrow>
      batchSize b = min req (slotsPerMicroSec ci - startCount b)
      \<and> unat (batchSize b) = min (unat req) (1000 div unat (TBENanoSecStep ci) - unat (startCount b))
      \<and> unat (startCount b) + unat (batchSize b) \<le> 1000 div unat (stepSize b)
      \<and> stepSize b = TBENanoSecStep ci \<and> stepSize b \<noteq> 0"
proof (induction evs arbitrary: w)
  case Nil
  then show ?case by simp
next
  case (Cons ev evs)
  show ?case
  proof (cases ev)
    case (ApplyControlInfo ci)
    have "countInv n (UpdateWorkerControlInfo w ci)"
      using Cons.prems ApplyControlInfo by (simp add: countInv_Update)
    moreover have "list_all (stepIs n) evs" using Cons.prems by simp
    ultimately show ?thesis using Cons.IH ApplyControlInfo by simp
  next
    case (GetTimestampBatch nowLocal req)
    have la: "list_all (stepIs n) evs" using Cons.prems by simp
    show ?thesis
    proof (cases "GetTimestampFromTSO offs w nowLocal req")
      case (Inl r)
      obtain e w' where r: "r = (e, w')" by (cases r)
      have get: "GetTimestampFromTSO offs w nowLocal req = Inl (e, w')" using Inl r by simp
      note c = Get_failure [OF Cons.prems(1) get]
      show ?thesis using Cons.IH [OF c la] GetTimestampBatch get by simp
    next
      case (Inr r)
      obtain b w' where r: "r = (b, w')" by (cases r)
      have get: "GetTimestampFromTSO offs w nowLocal req = Inr (b, w')" using Inr r by simp
      note c = Get_counts [OF Cons.prems(1) get]
      show ?thesis using Cons.IH [OF c(1) la] c(2-6) GetTimestampBatch get by simp
    qed
  qed
qed

text \<open>The timestamps of a returned batch do not exceed the threshold in force.\<close>

lemma batch_within_threshold:
  assumes ci: "countInv n w"
    and rng: "timesInRange w nowLocal" and offs: "unat offs < 1000"
    and get: "GetTimestampFromTSO offs w nowLocal req = Inr (b, w')"
  shows "\<forall>t \<in> set (decode b). tEndTAI t \<le> ReservedTimeShreshold (curControlInfo w)"
proof
  fix t assume t: "t \<in> set (decode b)"
  note c = Get_counts [OF ci get]
  let ?B = "unat (tbeBase b)" and ?s = "unat (startCount b)" and ?k = "unat (batchSize b)"
  let ?n = "unat (stepSize b)"
  let ?xs = "map (\<lambda>i. ?B + (?s + i) * ?n) [0..<?k]"
  obtain w1 where bsm: "batchStart offs w nowLocal = (tbeBase b, startCount b, w1)"
    using c(8) by blast
  have rB: "?B + 2000 < 2 ^ 64" using rng offs bsm by (rule batchStart_in_range)
  have pos: "0 < ?n" using c(3) by (simp add: unat_gt_0)
  have d: "map (\<lambda>t. unat (tEndTAI t)) (decode b) = ?xs"
    using rB c(7) by (rule decode_unat)
  have "unat (tEndTAI t) \<in> set (map (\<lambda>t. unat (tEndTAI t)) (decode b))" using t by simp
  then have x: "unat (tEndTAI t) \<in> set ?xs" by (simp only: d)
  with arith_progression(2) [OF pos, of ?B ?s ?k]
  have le: "unat (tEndTAI t) \<le> ?B + (?s + ?k - 1) * ?n" by blast
  have k: "0 < ?k" using t by (auto simp: decode_def)
  have "(?s + ?k) * unat (TBENanoSecStep (curControlInfo w)) \<le> 1000"
    using c(7) by (simp add: c(2))
  from tbeEnd_unat [OF rB this k]
  have "unat (tbeEndOfBatch (curControlInfo w) (tbeBase b) (startCount b) (batchSize b))
          = ?B + (?s + ?k - 1) * ?n"
    by (simp add: c(2))
  moreover have "unat (tbeEndOfBatch (curControlInfo w) (tbeBase b) (startCount b) (batchSize b))
                   \<le> unat (ReservedTimeShreshold (curControlInfo w))"
    using c(9) by (simp add: word_less_nat_alt)
  ultimately show "tEndTAI t \<le> ReservedTimeShreshold (curControlInfo w)"
    using le by (simp add: word_le_nat_alt)
qed

lemma run_thresholds:
  assumes "unat offs < 1000"
  shows "countInv n w \<Longrightarrow> list_all (stepIs n) evs \<Longrightarrow> noOverflow offs w evs \<Longrightarrow>
         \<forall>(ci, req, r) \<in> set (worker_run offs w evs). \<forall>b. r = Inr b \<longrightarrow>
           (\<forall>t \<in> set (decode b). tEndTAI t \<le> ReservedTimeShreshold ci)"
proof (induction evs arbitrary: w)
  case Nil
  then show ?case by simp
next
  case (Cons ev evs)
  show ?case
  proof (cases ev)
    case (ApplyControlInfo ci)
    let ?w = "UpdateWorkerControlInfo w ci"
    have "countInv n ?w" using Cons.prems ApplyControlInfo by (simp add: countInv_Update)
    moreover have "list_all (stepIs n) evs" using Cons.prems by simp
    moreover have "noOverflow offs ?w evs" using Cons.prems ApplyControlInfo by simp
    ultimately show ?thesis using Cons.IH ApplyControlInfo by simp
  next
    case (GetTimestampBatch nowLocal req)
    have la: "list_all (stepIs n) evs" using Cons.prems by simp
    have rng: "timesInRange w nowLocal" using Cons.prems GetTimestampBatch by simp
    show ?thesis
    proof (cases "GetTimestampFromTSO offs w nowLocal req")
      case (Inl r)
      obtain e w' where r: "r = (e, w')" by (cases r)
      have get: "GetTimestampFromTSO offs w nowLocal req = Inl (e, w')" using Inl r by simp
      have no: "noOverflow offs w' evs" using Cons.prems GetTimestampBatch get by simp
      note c = Get_failure [OF Cons.prems(1) get]
      show ?thesis using Cons.IH [OF c la no] GetTimestampBatch get by simp
    next
      case (Inr r)
      obtain b w' where r: "r = (b, w')" by (cases r)
      have get: "GetTimestampFromTSO offs w nowLocal req = Inr (b, w')" using Inr r by simp
      note c = Get_counts [OF Cons.prems(1) get]
      note bt = batch_within_threshold [OF Cons.prems(1) rng assms get]
      have no: "noOverflow offs w' evs" using Cons.prems GetTimestampBatch get by simp
      show ?thesis
        using Cons.IH [OF c(1) la no] bt GetTimestampBatch get by simp
    qed
  qed
qed

lemma new_worker_inv: "countInv n (TSOWorker_new tid)"
  by (simp add: countInv_def TSOWorker_new_def TSOWorkerControlInfo_new_def)

text \<open>The example run, evaluated.\<close>

lemmas hot_path_defs = GetTimestampFromTSO_def batchStart_def tbeCandidate_def
  slotsPerMicroSec_def batchSizeToIssue_def tbeEndOfBatch_def UpdateWorkerControlInfo_def
  TSOWorker_new_def TSOWorkerControlInfo_new_def Let_def

lemma exampleRun_outcomes:
  "worker_run 1 (TSOWorker_new 7) exampleRun =
  [(TSOWorkerControlInfo_new, 1, Inl (Thrown TSONotReadyException)),
   (exampleControlInfo, 3, Inr \<lparr>tbeBase = 5001, uncertaintyDelta = 100, batchTsoId = 7,
             stepSize = 250, startCount = 0, batchSize = 3, ttl = 50\<rparr>),
   (exampleControlInfo, 3, Inr exampleSecondBatch),
   (exampleControlInfo, 2, Inl (Thrown TSONotReadyException)),
   (exampleControlInfo, 1, Inr \<lparr>tbeBase = 5001, uncertaintyDelta = 100, batchTsoId = 7,
             stepSize = 250, startCount = 0, batchSize = 1, ttl = 50\<rparr>)]"
  by (simp add: exampleRun_def exampleControlInfo_def exampleSecondBatch_def hot_path_defs)

lemma exampleRun_steps: "list_all (stepIs 250) exampleRun"
  by (simp add: exampleRun_def exampleControlInfo_def)

lemma exampleRun_noOverflow: "noOverflow 1 (TSOWorker_new 7) exampleRun"
  by (simp add: exampleRun_def exampleControlInfo_def hot_path_defs timesInRange_def)

section \<open>The worker's hot path: properties of runs\<close>

text \<open>
  C7. Every batch a request returns has
  \<open>batchSize = min(batchSizeRequested, 1000 / TBENanoSecStep - startCount)\<close>, with the step
  of the control info in force, which is not 0: this holds of every successful request,
  whatever the worker's state. And take any run of a freshly constructed worker in which
  every control info that lets the worker issue carries the deployment's step: for every
  batch it returns the same equation holds of the numbers, and
  \<open>startCount + batchSize\<close> is at most \<open>1000 / stepSize\<close>.
\<close>

theorem batch_size_is_min_of_request_and_free_slots:
  assumes "list_all (stepIs n) evs"
  shows "(\<forall>(ci, req, r) \<in> set (worker_run offs (TSOWorker_new tid) evs). \<forall>b. r = Inr b \<longrightarrow>
      batchSize b = min req (slotsPerMicroSec ci - startCount b)
      \<and> unat (batchSize b) = min (unat req) (1000 div unat (TBENanoSecStep ci) - unat (startCount b))
      \<and> unat (startCount b) + unat (batchSize b) \<le> 1000 div unat (stepSize b)
      \<and> stepSize b = TBENanoSecStep ci \<and> stepSize b \<noteq> 0)
    \<and> (\<forall>w nowLocal req b w'.
          GetTimestampFromTSO offs w nowLocal req = Inr (b, w') \<longrightarrow>
          batchSize b = min req (slotsPerMicroSec (curControlInfo w) - startCount b)
          \<and> stepSize b = TBENanoSecStep (curControlInfo w) \<and> stepSize b \<noteq> 0)"
proof -
  have "batchSize b = min req (slotsPerMicroSec (curControlInfo w) - startCount b)
          \<and> stepSize b = TBENanoSecStep (curControlInfo w) \<and> stepSize b \<noteq> 0"
    if "GetTimestampFromTSO offs w nowLocal req = Inr (b, w')" for w nowLocal req b w'
    using that
    by (auto simp: GetTimestampFromTSO_def Let_def batchSizeToIssue_def
        split: if_splits prod.splits)
  with run_counts [OF new_worker_inv assms, where offs = offs and tid1 = tid]
  show ?thesis by blast
qed

theorem batch_size_is_min_of_request_and_free_slots_witness:
  "(exampleControlInfo, 3, Inr exampleSecondBatch) \<in> set (worker_run 1 (TSOWorker_new 7) exampleRun)
   \<and> batchSize exampleSecondBatch
       = min 3 (slotsPerMicroSec exampleControlInfo - startCount exampleSecondBatch)
   \<and> unat (startCount exampleSecondBatch) + unat (batchSize exampleSecondBatch)
       \<le> 1000 div unat (stepSize exampleSecondBatch)"
proof -
  have mem: "(exampleControlInfo, 3, Inr exampleSecondBatch)
               \<in> set (worker_run 1 (TSOWorker_new 7) exampleRun)"
    by (simp add: exampleRun_outcomes)
  from batch_size_is_min_of_request_and_free_slots [OF exampleRun_steps, of 1 7, THEN conjunct1] mem
  have "case (exampleControlInfo, 3 :: 16 word, Inr exampleSecondBatch) of
          (ci, req, r) \<Rightarrow> \<forall>b. r = Inr b \<longrightarrow>
      batchSize b = min req (slotsPerMicroSec ci - startCount b)
      \<and> unat (batchSize b) = min (unat req) (1000 div unat (TBENanoSecStep ci) - unat (startCount b))
      \<and> unat (startCount b) + unat (batchSize b) \<le> 1000 div unat (stepSize b)
      \<and> stepSize b = TBENanoSecStep ci \<and> stepSize b \<noteq> 0"
    by blast
  then show ?thesis using mem by blast
qed

text \<open>
  C2. Take any run of a freshly constructed worker with residue below 1000, in which
  every control info that lets the worker issue carries the deployment's step and no
  time comes within three microseconds of \<open>2 ^ 64\<close> ns. Every timestamp of every batch the
  run returns is at most the \<open>ReservedTimeShreshold\<close> of the control info in force at that
  request. And whatever the worker's state: a request whose batch end (step 8, from the
  microsecond and the start count of steps 4 to 6) exceeds the threshold of the control
  info in force returns no batch and fails with \<open>TSONotReadyException\<close>; it leaves the
  worker as steps 4 to 6 left it, or untouched when the control info is not ready.
\<close>

theorem issued_timestamps_within_reserved_threshold:
  assumes "unat offs < 1000" and "list_all (stepIs n) evs"
    and "noOverflow offs (TSOWorker_new tid) evs"
  shows "(\<forall>(ci, req, r) \<in> set (worker_run offs (TSOWorker_new tid) evs). \<forall>b. r = Inr b \<longrightarrow>
           (\<forall>t \<in> set (decode b). tEndTAI t \<le> ReservedTimeShreshold ci))
       \<and> (\<forall>w nowLocal req.
            TBENanoSecStep (curControlInfo w) \<noteq> 0
            \<and> ReservedTimeShreshold (curControlInfo w)
                < tbeEndOfBatch (curControlInfo w) (fst (batchStart offs w nowLocal))
                    (fst (snd (batchStart offs w nowLocal)))
                    (batchSizeToIssue (curControlInfo w)
                       (fst (snd (batchStart offs w nowLocal))) req)
            \<longrightarrow> GetTimestampFromTSO offs w nowLocal req
                  = Inl (Thrown TSONotReadyException,
                         if IsReadyToIssueTS (curControlInfo w)
                         then snd (snd (batchStart offs w nowLocal)) else w))"
proof -
  have "\<forall>(ci, req, r) \<in> set (worker_run offs (TSOWorker_new tid) evs). \<forall>b. r = Inr b \<longrightarrow>
           (\<forall>t \<in> set (decode b). tEndTAI t \<le> ReservedTimeShreshold ci)"
    using assms(1) new_worker_inv assms(2) assms(3) by (rule run_thresholds)
  moreover have "GetTimestampFromTSO offs w nowLocal req
                  = Inl (Thrown TSONotReadyException,
                         if IsReadyToIssueTS (curControlInfo w)
                         then snd (snd (batchStart offs w nowLocal)) else w)"
    if "TBENanoSecStep (curControlInfo w) \<noteq> 0
        \<and> ReservedTimeShreshold (curControlInfo w)
                < tbeEndOfBatch (curControlInfo w) (fst (batchStart offs w nowLocal))
                    (fst (snd (batchStart offs w nowLocal)))
                    (batchSizeToIssue (curControlInfo w)
                       (fst (snd (batchStart offs w nowLocal))) req)"
    for w nowLocal req
    using that by (simp add: GetTimestampFromTSO_def Let_def split_beta)
  ultimately show ?thesis by blast
qed

theorem issued_timestamps_within_reserved_threshold_witness:
  "(exampleControlInfo, 3, Inr exampleSecondBatch) \<in> set (worker_run 1 (TSOWorker_new 7) exampleRun)
   \<and> map tEndTAI (decode exampleSecondBatch) = [5751]
   \<and> tEndTAI (hd (decode exampleSecondBatch)) \<le> ReservedTimeShreshold exampleControlInfo
   \<and> GetTimestampFromTSO 1 exampleFullWorker 5200 2
       = Inl (Thrown TSONotReadyException, exampleFullWorker\<lparr>lastRequestTimeStampCount := 0\<rparr>)"
proof -
  have h1: "unat (1 :: 64 word) < 1000" by simp
  note t = issued_timestamps_within_reserved_threshold
             [OF h1 exampleRun_steps exampleRun_noOverflow]
  have mem: "(exampleControlInfo, 3, Inr exampleSecondBatch)
               \<in> set (worker_run 1 (TSOWorker_new 7) exampleRun)"
    by (simp add: exampleRun_outcomes)
  have d: "map tEndTAI (decode exampleSecondBatch) = [5751]"
    by (simp add: decode_def exampleSecondBatch_def)
  have hdm: "hd (decode exampleSecondBatch) \<in> set (decode exampleSecondBatch)"
    using d by (cases "decode exampleSecondBatch") simp_all
  from t mem have "case (exampleControlInfo, 3 :: 16 word, Inr exampleSecondBatch) of
          (ci, req, r) \<Rightarrow> \<forall>b. r = Inr b \<longrightarrow>
            (\<forall>t \<in> set (decode b). tEndTAI t \<le> ReservedTimeShreshold ci)"
    by blast
  then have a: "tEndTAI (hd (decode exampleSecondBatch)) \<le> ReservedTimeShreshold exampleControlInfo"
    using hdm by blast
  have pre: "TBENanoSecStep (curControlInfo exampleFullWorker) \<noteq> 0
        \<and> ReservedTimeShreshold (curControlInfo exampleFullWorker)
            < tbeEndOfBatch (curControlInfo exampleFullWorker)
                (fst (batchStart 1 exampleFullWorker 5200))
                (fst (snd (batchStart 1 exampleFullWorker 5200)))
                (batchSizeToIssue (curControlInfo exampleFullWorker)
                   (fst (snd (batchStart 1 exampleFullWorker 5200))) 2)"
    by (simp add: exampleFullWorker_def exampleControlInfo_def hot_path_defs)
  from t pre have b: "GetTimestampFromTSO 1 exampleFullWorker 5200 2
      = Inl (Thrown TSONotReadyException,
             if IsReadyToIssueTS (curControlInfo exampleFullWorker)
             then snd (snd (batchStart 1 exampleFullWorker 5200)) else exampleFullWorker)"
    by blast
  have e: "(if IsReadyToIssueTS (curControlInfo exampleFullWorker)
            then snd (snd (batchStart 1 exampleFullWorker 5200)) else exampleFullWorker)
           = exampleFullWorker\<lparr>lastRequestTimeStampCount := 0\<rparr>"
    by (simp add: exampleFullWorker_def exampleControlInfo_def batchStart_def tbeCandidate_def
        slotsPerMicroSec_def Let_def)
  from b have b': "GetTimestampFromTSO 1 exampleFullWorker 5200 2
      = Inl (Thrown TSONotReadyException, exampleFullWorker\<lparr>lastRequestTimeStampCount := 0\<rparr>)"
    by (simp only: e)
  from mem d a b' show ?thesis by blast
qed


section \<open>The default control info\<close>

text \<open>
  The hot path's first gate: a worker whose control info is not ready fails every
  request with \<open>TSONotReadyException\<close> and stays as it is.
\<close>

lemma not_ready_request:
  "\<not> IsReadyToIssueTS (curControlInfo w) \<Longrightarrow>
   GetTimestampFromTSO offs w nowLocal req = Inl (Thrown TSONotReadyException, w)"
  by (simp add: GetTimestampFromTSO_def)

lemma not_ready_run:
  "\<not> IsReadyToIssueTS (curControlInfo w) \<Longrightarrow> list_all isRequest evs \<Longrightarrow>
   worker_run offs w evs
     = map (\<lambda>ev. (curControlInfo w, (case ev of GetTimestampBatch nowLocal req \<Rightarrow> req | ApplyControlInfo ci \<Rightarrow> 0),
                  Inl (Thrown TSONotReadyException))) evs"
proof (induction evs)
  case Nil
  then show ?case by simp
next
  case (Cons ev evs)
  then show ?case by (cases ev) (simp_all add: not_ready_request)
qed

text \<open>
  C10. A default-constructed \<open>TSOWorkerControlInfo\<close> has \<open>IsReadyToIssueTS = false\<close> and every
  numeric field 0, and a worker is constructed with such a control info. Therefore a
  worker that has received no \<open>UpdateWorkerControlInfo\<close> cannot issue any timestamp: take
  any run of a freshly constructed worker that consists of client requests only, whatever
  the residue, the clock readings and the batch sizes requested. Every request is
  answered, each with \<open>TSONotReadyException\<close>, under the default control info, and the run
  hands out no timestamp.
\<close>

theorem default_control_info_cannot_issue:
  assumes "list_all isRequest evs"
  shows "IsReadyToIssueTS TSOWorkerControlInfo_new = False
   \<and> TBENanoSecStep TSOWorkerControlInfo_new = 0
   \<and> TBEAdjustment TSOWorkerControlInfo_new = 0
   \<and> TsDelta TSOWorkerControlInfo_new = 0
   \<and> ReservedTimeShreshold TSOWorkerControlInfo_new = 0
   \<and> BatchTTL TSOWorkerControlInfo_new = 0
   \<and> curControlInfo (TSOWorker_new tid) = TSOWorkerControlInfo_new
   \<and> length (worker_run offs (TSOWorker_new tid) evs) = length evs
   \<and> (\<forall>(ci, req, r) \<in> set (worker_run offs (TSOWorker_new tid) evs).
         ci = TSOWorkerControlInfo_new \<and> r = Inl (Thrown TSONotReadyException))
   \<and> issued offs (TSOWorker_new tid) evs = []"
proof -
  have d: "IsReadyToIssueTS TSOWorkerControlInfo_new = False
   \<and> TBENanoSecStep TSOWorkerControlInfo_new = 0
   \<and> TBEAdjustment TSOWorkerControlInfo_new = 0
   \<and> TsDelta TSOWorkerControlInfo_new = 0
   \<and> ReservedTimeShreshold TSOWorkerControlInfo_new = 0
   \<and> BatchTTL TSOWorkerControlInfo_new = 0"
    by (simp add: TSOWorkerControlInfo_new_def)
  have c: "curControlInfo (TSOWorker_new tid) = TSOWorkerControlInfo_new"
    by (simp add: TSOWorker_new_def)
  have nr: "\<not> IsReadyToIssueTS (curControlInfo (TSOWorker_new tid))"
    using d c by simp
  note run = not_ready_run [OF nr assms, where offs = offs]
  have l: "length (worker_run offs (TSOWorker_new tid) evs) = length evs"
    by (simp add: run)
  have a: "\<forall>(ci, req, r) \<in> set (worker_run offs (TSOWorker_new tid) evs).
         ci = TSOWorkerControlInfo_new \<and> r = Inl (Thrown TSONotReadyException)"
    by (auto simp: run c)
  have i: "issued offs (TSOWorker_new tid) evs = []"
    by (simp add: issued_def run)
  from d c l a i show ?thesis by blast
qed

theorem default_control_info_cannot_issue_witness:
  "list_all isRequest [GetTimestampBatch 4000 1, GetTimestampBatch 5000 3]
   \<and> worker_run 1 (TSOWorker_new 7) [GetTimestampBatch 4000 1, GetTimestampBatch 5000 3]
       = [(TSOWorkerControlInfo_new, 1, Inl (Thrown TSONotReadyException)),
          (TSOWorkerControlInfo_new, 3, Inl (Thrown TSONotReadyException))]
   \<and> issued 1 (TSOWorker_new 7) [GetTimestampBatch 4000 1, GetTimestampBatch 5000 3] = []"
proof -
  have h: "list_all isRequest [GetTimestampBatch 4000 1, GetTimestampBatch 5000 3]"
    by simp
  note t = default_control_info_cannot_issue [OF h, where offs = 1 and tid = 7]
  have r: "worker_run 1 (TSOWorker_new 7) [GetTimestampBatch 4000 1, GetTimestampBatch 5000 3]
       = [(TSOWorkerControlInfo_new, 1, Inl (Thrown TSONotReadyException)),
          (TSOWorkerControlInfo_new, 3, Inl (Thrown TSONotReadyException))]"
    by (simp add: hot_path_defs)
  from t have "issued 1 (TSOWorker_new 7) [GetTimestampBatch 4000 1, GetTimestampBatch 5000 3] = []"
    by blast
  with h r show ?thesis by blast
qed

section \<open>The controller: thresholds sent within one master epoch\<close>

lemma DoHeartBeat_cases:
  "DoHeartBeat c now =
     (if isMasterInstance c then
        (let c2 = (if ReservedTimeShreshold (controlInfoToSend c) < GenNewLeaseVal c now
                   then c\<lparr>myLease := GenNewLeaseVal c now,
                           controlInfoToSend :=
                             (controlInfoToSend c)\<lparr>ReservedTimeShreshold := GenNewLeaseVal c now\<rparr>\<rparr>
                   else c\<lparr>myLease := GenNewLeaseVal c now\<rparr>)
         in Running (Some (fst (SendWorkersControlInfo c2 now))) (snd (SendWorkersControlInfo c2 now)))
      else Running None c)"
  by (simp add: DoHeartBeat_def RenewLeaseAndExtendReservedTimeThreshold_def Let_def split_beta)

lemma step_threshold:
  assumes "\<not> isSetRole ev"
  shows "case controller_step c now ev of
           Running b c1 \<Rightarrow>
             ReservedTimeShreshold (controlInfoToSend c) \<le> ReservedTimeShreshold (controlInfoToSend c1)
             \<and> (\<forall>ci. b = Some ci \<longrightarrow>
                   ReservedTimeShreshold ci = ReservedTimeShreshold (controlInfoToSend c1))
         | Exited ci \<Rightarrow> ReservedTimeShreshold ci = ReservedTimeShreshold (controlInfoToSend c)"
proof (cases ev)
  case (SetRole isMaster prev)
  then show ?thesis using assms by simp
next
  case HeartBeatTick
  then show ?thesis
    by (auto simp: DoHeartBeat_cases SendWorkersControlInfo_def Let_def intro: less_imp_le)
next
  case (TimeSyncTick taiDelta uncertainty)
  then show ?thesis by (simp add: DoTimeSync_def)
next
  case DeferredBroadcast
  then show ?thesis by (simp add: SendWorkersControlInfo_def Let_def)
qed

lemma SetRole_threshold:
  "case SetRoleInternal c now isMaster prev of
     Running b c1 \<Rightarrow>
       (\<forall>ci. b = Some ci \<longrightarrow>
          ReservedTimeShreshold ci = ReservedTimeShreshold (controlInfoToSend c1))
   | Exited ci \<Rightarrow> False"
  by (simp add: SetRoleInternal_def SendWorkersControlInfo_def Let_def)

text \<open>
  No operation of the controller changes the step: every control info a controller sends
  carries the step of its pending control info.
\<close>

lemma step_keeps_step:
  "case controller_step c now ev of
     Running b c1 \<Rightarrow>
       TBENanoSecStep (controlInfoToSend c1) = TBENanoSecStep (controlInfoToSend c)
       \<and> (\<forall>ci. b = Some ci \<longrightarrow> TBENanoSecStep ci = TBENanoSecStep (controlInfoToSend c))
   | Exited ci \<Rightarrow> TBENanoSecStep ci = TBENanoSecStep (controlInfoToSend c)"
proof (cases ev)
  case (SetRole isMaster prev)
  then show ?thesis by (simp add: SetRoleInternal_def SendWorkersControlInfo_def Let_def)
next
  case HeartBeatTick
  then show ?thesis by (simp add: DoHeartBeat_cases SendWorkersControlInfo_def Let_def)
next
  case (TimeSyncTick taiDelta uncertainty)
  then show ?thesis by (simp add: DoTimeSync_def)
next
  case DeferredBroadcast
  then show ?thesis by (simp add: SendWorkersControlInfo_def Let_def)
qed

lemma broadcasts_keep_step:
  "\<forall>ci \<in> set (broadcasts c evs). TBENanoSecStep ci = TBENanoSecStep (controlInfoToSend c)"
proof (induction evs arbitrary: c)
  case Nil
  then show ?case by simp
next
  case (Cons e evs)
  obtain now ev where e: "e = (now, ev)" by (cases e)
  note st = step_keeps_step [of c now ev]
  show ?case
  proof (cases "controller_step c now ev")
    case (Running b c1)
    then show ?thesis using st Cons.IH [of c1] e by (cases b) simp_all
  next
    case (Exited ci)
    then show ?thesis using st e by simp
  qed
qed

lemma broadcasts_sorted_from:
  "list_all (\<lambda>e. \<not> isSetRole (snd e)) evs \<Longrightarrow>
   sorted_wrt (\<lambda>a b. ReservedTimeShreshold a \<le> ReservedTimeShreshold b) (broadcasts c evs)
   \<and> (\<forall>ci \<in> set (broadcasts c evs).
         ReservedTimeShreshold (controlInfoToSend c) \<le> ReservedTimeShreshold ci)"
proof (induction evs arbitrary: c)
  case Nil
  then show ?case by simp
next
  case (Cons e evs)
  obtain now ev where e: "e = (now, ev)" by (cases e)
  have ns: "\<not> isSetRole ev" and la: "list_all (\<lambda>e. \<not> isSetRole (snd e)) evs"
    using Cons.prems e by simp_all
  note st = step_threshold [OF ns, of c now]
  show ?case
  proof (cases "controller_step c now ev")
    case (Running b c1)
    note ih = Cons.IH [OF la, of c1]
    from st Running
    have le: "ReservedTimeShreshold (controlInfoToSend c) \<le> ReservedTimeShreshold (controlInfoToSend c1)"
      and sent: "\<And>ci. b = Some ci \<Longrightarrow>
                   ReservedTimeShreshold ci = ReservedTimeShreshold (controlInfoToSend c1)"
      by simp_all
    show ?thesis
    proof (cases b)
      case None
      then show ?thesis using ih le Running e by (auto intro: order_trans)
    next
      case (Some ci)
      then show ?thesis using ih le sent [OF Some] Running e by (auto intro: order_trans)
    qed
  next
    case (Exited ci)
    then show ?thesis using st e by simp
  qed
qed

lemmas controller_defs = SetRoleInternal_def DoHeartBeat_def DoTimeSync_def
  SendWorkersControlInfo_def RenewLeaseAndExtendReservedTimeThreshold_def GenNewLeaseVal_def
  TimeAuthorityNow_def TSOController_new_def exampleStandby_def Let_def

lemma exampleEpoch_thresholds:
  "map ReservedTimeShreshold (broadcasts exampleStandby exampleEpoch)
     = [31005600, 32005800, 32005800]"
  by (simp add: exampleEpoch_def controller_defs)

text \<open>
  C6. Take any controller and any list of its events in which no event after the first
  is a role change: one master epoch, opened by a role change or already under way. The
  control infos sent over these events have reserved time thresholds that never
  decrease: the threshold of each is at most the threshold of every one sent later. A
  heartbeat overwrites the pending threshold only with a larger value, and time sync and
  the deferred broadcast leave it alone.
\<close>

theorem broadcast_thresholds_never_decrease_within_epoch:
  assumes "list_all (\<lambda>e. \<not> isSetRole (snd e)) evs"
  shows "sorted_wrt (\<lambda>a b. ReservedTimeShreshold a \<le> ReservedTimeShreshold b)
           (broadcasts c (e # evs))"
proof -
  obtain now ev where e: "e = (now, ev)" by (cases e)
  show ?thesis
  proof (cases "isSetRole ev")
    case False
    then have "list_all (\<lambda>e. \<not> isSetRole (snd e)) (e # evs)" using assms e by simp
    then show ?thesis using broadcasts_sorted_from by blast
  next
    case True
    then obtain isMaster prev where ev: "ev = SetRole isMaster prev" by (cases ev) simp_all
    note sr = SetRole_threshold [of c now isMaster prev]
    show ?thesis
    proof (cases "SetRoleInternal c now isMaster prev")
      case (Running b c1)
      note r = broadcasts_sorted_from [OF assms, of c1]
      show ?thesis
      proof (cases b)
        case None
        then show ?thesis using r Running e ev by simp
      next
        case (Some ci)
        then show ?thesis using r sr Running e ev by simp
      qed
    next
      case (Exited ci)
      then show ?thesis using sr by simp
    qed
  qed
qed

theorem broadcast_thresholds_never_decrease_within_epoch_witness:
  "sorted_wrt (\<lambda>a b. ReservedTimeShreshold a \<le> ReservedTimeShreshold b)
     (broadcasts exampleStandby exampleEpoch)
   \<and> map ReservedTimeShreshold (broadcasts exampleStandby exampleEpoch)
       = [31005600, 32005800, 32005800]"
proof -
  have h: "list_all (\<lambda>e. \<not> isSetRole (snd e)) (tl exampleEpoch)"
    by (simp add: exampleEpoch_def)
  have eq: "hd exampleEpoch # tl exampleEpoch = exampleEpoch"
    by (simp add: exampleEpoch_def)
  from broadcast_thresholds_never_decrease_within_epoch
         [OF h, where c = exampleStandby and e = "hd exampleEpoch"]
  have "sorted_wrt (\<lambda>a b. ReservedTimeShreshold a \<le> ReservedTimeShreshold b)
          (broadcasts exampleStandby exampleEpoch)"
    by (simp only: eq)
  then show ?thesis using exampleEpoch_thresholds by (rule conjI)
qed

section \<open>The handover: waiting out the previous master's threshold\<close>

lemma step_keeps_waiting:
  assumes "\<not> isSetRole ev"
  shows "case controller_step c now ev of
           Running b c1 \<Rightarrow>
             prevReservedTimeShreshold c1 = prevReservedTimeShreshold c
             \<and> (\<forall>ci. b = Some ci \<longrightarrow>
                   (IsReadyToIssueTS ci \<longrightarrow>
                      prevReservedTimeShreshold c < TimeAuthorityNow c now))
         | Exited ci \<Rightarrow> True"
proof (cases ev)
  case (SetRole isMaster prev)
  then show ?thesis using assms by simp
next
  case HeartBeatTick
  then show ?thesis
    by (auto simp: DoHeartBeat_cases SendWorkersControlInfo_def Let_def TimeAuthorityNow_def)
next
  case (TimeSyncTick taiDelta uncertainty)
  then show ?thesis by (simp add: DoTimeSync_def)
next
  case DeferredBroadcast
  then show ?thesis by (simp add: SendWorkersControlInfo_def Let_def TimeAuthorityNow_def)
qed

lemma SetRole_master:
  "case SetRoleInternal c now True R of
     Running b c1 \<Rightarrow>
       prevReservedTimeShreshold c1 = R
       \<and> (TimeAuthorityNow c now \<le> R \<longrightarrow> b = None)
   | Exited ci \<Rightarrow> False"
  by (simp add: SetRoleInternal_def SendWorkersControlInfo_def Let_def TimeAuthorityNow_def)

text \<open>
  While the controller's TAI-now is not beyond the threshold it waits out, a worker that
  is not ready stays so, and every request fails with \<open>TSONotReadyException\<close>.
\<close>

lemma system_not_ready_before:
  "prevReservedTimeShreshold c = R \<Longrightarrow> \<not> IsReadyToIssueTS (curControlInfo w) \<Longrightarrow>
   list_all noRoleChange evs \<Longrightarrow> taiNotBeyond R c evs \<Longrightarrow>
   list_all (\<lambda>(ci, req, r). r = Inl (Thrown TSONotReadyException)) (system_run offs c w evs)"
proof (induction evs arbitrary: c w)
  case Nil
  then show ?case by simp
next
  case (Cons e evs)
  obtain now sev where e: "e = (now, sev)" by (cases e)
  have la: "list_all noRoleChange evs" using Cons.prems by simp
  show ?case
  proof (cases sev)
    case (OnController ev)
    have ns: "\<not> isSetRole ev" using Cons.prems e OnController by simp
    have before: "TimeAuthorityNow c now \<le> R" using Cons.prems e OnController by simp
    note st = step_keeps_waiting [OF ns, of c now]
    show ?thesis
    proof (cases "controller_step c now ev")
      case (Running b c1)
      have p: "prevReservedTimeShreshold c1 = R" using st Running Cons.prems(1) by simp
      have tb: "taiNotBeyond R c1 evs" using Cons.prems(4) e OnController Running by simp
      show ?thesis
      proof (cases b)
        case None
        then show ?thesis
          using Cons.IH [OF p Cons.prems(2) la tb] Running e OnController by simp
      next
        case (Some ci)
        have "\<not> IsReadyToIssueTS ci"
          using st Running Some before Cons.prems(1) by (auto simp: not_less [symmetric])
        then have "\<not> IsReadyToIssueTS (curControlInfo (UpdateWorkerControlInfo w ci))"
          by (simp add: UpdateWorkerControlInfo_def)
        then show ?thesis
          using Cons.IH [OF p _ la tb] Running e OnController Some by simp
      qed
    next
      case (Exited ci)
      then show ?thesis using e OnController by simp
    qed
  next
    case (ClientRequest req)
    have tb: "taiNotBeyond R c evs" using Cons.prems(4) e ClientRequest by simp
    show ?thesis
      using Cons.IH [OF Cons.prems(1) Cons.prems(2) la tb] e ClientRequest
        not_ready_request [OF Cons.prems(2)]
      by simp
  qed
qed

text \<open>
  The first part of the handover: a controller whose worker is not ready becomes master
  with the previous reserved time threshold \<open>R\<close>, and no further role change follows. As
  long as every event happens while the controller's TAI-now is not beyond \<open>R\<close>, every
  request fails with \<open>TSONotReadyException\<close>.
\<close>

lemma handover_not_ready_before_threshold:
  assumes nr: "\<not> IsReadyToIssueTS (curControlInfo w)" and la: "list_all noRoleChange evs"
    and tb: "taiNotBeyond R c ((now0, OnController (SetRole True R)) # evs)"
  shows "list_all (\<lambda>(ci, req, r). r = Inl (Thrown TSONotReadyException))
           (system_run offs c w ((now0, OnController (SetRole True R)) # evs))"
proof -
  have before: "TimeAuthorityNow c now0 \<le> R" using tb by simp
  note sr = SetRole_master [where c = c and now = now0 and R = R]
  show ?thesis
  proof (cases "SetRoleInternal c now0 True R")
    case (Running b c1)
    have b: "b = None" and p: "prevReservedTimeShreshold c1 = R"
      using sr Running before by simp_all
    have "taiNotBeyond R c1 evs" using tb Running by simp
    from system_not_ready_before [OF p nr la this, of offs] show ?thesis
      using Running b by simp
  next
    case (Exited ci)
    then show ?thesis using sr by simp
  qed
qed

lemma exampleWaiting_not_ready:
  "system_run 0 exampleStandby (TSOWorker_new 7)
     ((5000, OnController (SetRole True 5500)) # exampleWaiting) =
   [(TSOWorkerControlInfo_new, 1, Inl (Thrown TSONotReadyException)),
    (TSOWorkerControlInfo_new\<lparr>TBENanoSecStep := 1, ReservedTimeShreshold := 31005400\<rparr>, 1,
     Inl (Thrown TSONotReadyException))]"
  by (simp add: exampleWaiting_def controller_defs hot_path_defs)




end
